theory Spec2Isabelle
  imports Complex_Main "HOL-Library.Multiset"
begin

section \<open>The App component of src/App.tsx as an event-driven state machine\<close>

text \<open>
  The component is a React function component. Its behaviour is the reaction of its
  state (the \<open>useState\<close> cells, the \<open>useRef\<close> cells and the browser objects it
  creates) to events: clicks on its controls, and the browser running a callback or
  resuming an \<open>async\<close> function after an \<open>await\<close>. Every handler runs to its next
  \<open>await\<close> without interruption (one UI thread), so a handler is a function from state
  to state, and what is still to run (a pending permission request, a timer, a queued
  recorder event, a service call in flight) is a list of tasks held in the state. The
  browser chooses which task runs next and with what outcome.

  Numbers of the source are IEEE doubles; a confidence is modelled as a real number and a
  time in milliseconds as a natural number.
\<close>

subsection \<open>Data model (the shapes used by App.tsx)\<close>

datatype Subject = Baby | Dog | Cat

datatype Status = idle | recording | processing | result

datatype RecordMode = audio | video

text \<open>\<open>TranslationResult\<close>: the fields the component reads from a service result.\<close>

record TranslationResult =
  cryType :: string
  confidence :: real
  suggestion :: string
  behavior :: "string option"

text \<open>
  \<open>CryRecord\<close> is a \<open>TranslationResult\<close> with \<open>id\<close>, \<open>timestamp\<close> and \<open>subject\<close>
  (primed here: \<open>id\<close> is a HOL constant and \<open>subject\<close> a field of the component state).
  The source stores \<open>new Date().toISOString()\<close> in \<open>timestamp\<close>; the model keeps the
  instant itself, in milliseconds.
\<close>

record CryRecord = TranslationResult +
  id' :: string
  timestamp :: nat
  subject' :: Subject

text \<open>
  The three texts ever passed to \<open>setError\<close>: "analysis failed, please try again"
  (line 194), "the API key is invalid or expired, please check and enter it again"
  (line 197) and "cannot start the microphone or camera, please check the permissions"
  (line 307).
\<close>

datatype message = AnalysisFailedMsg | KeyInvalidMsg | CaptureFailedMsg

text \<open>
  A value thrown or a rejection reason: an instance of \<open>Error\<close> with its message, or
  any other value (for which \<open>err instanceof Error\<close> is false).
\<close>

datatype thrown = Error string | NonError

type_synonym blob = string

text \<open>
  A \<open>MediaRecorder\<close>: whether it is recording, and the closure of its \<open>onstop\<close>
  handler, which captures \<open>subject\<close> and \<open>apiKey\<close> of the render in which
  \<open>startRecording\<close> was created. The video branch attaches no \<open>onstop\<close>.
\<close>

record Recorder =
  active :: bool
  onstop :: "(Subject \<times> string) option"

text \<open>
  What the browser still has to run.
  \<^item> \<open>GetUserMedia m sj key\<close>: \<open>startRecording\<close> suspended at line 213, with the
    \<open>recordMode\<close>, \<open>subject\<close> and \<open>apiKey\<close> its closure captured.
  \<^item> \<open>RecorderStop i\<close>: the \<open>dataavailable\<close> and \<open>stop\<close> events that \<open>stop()\<close>
    queued for recorder \<open>i\<close>.
  \<^item> \<open>FrameInterval tid due a\<close>: the interval of line 246, with its timer id, the time
    it is next due and the address of the \<open>frames\<close> array its closure shares with the
    timeout.
  \<^item> \<open>BudgetTimeout due a sj key\<close>: the timeout of line 267.
  \<^item> \<open>AudioCall b sj key\<close>: \<open>translateAudio\<close> in flight from the audio \<open>onstop\<close>
    handler (line 225).
  \<^item> \<open>VideoCall fs sj key\<close>: \<open>analyzeVideoFrames\<close> in flight (line 274).
  \<^item> \<open>VideoAudioCall v b sj key\<close>: \<open>translateAudio\<close> in flight in the video branch
    (line 278); the suspended function holds \<open>videoResult = v\<close>.
\<close>

datatype task =
    GetUserMedia RecordMode Subject string
  | RecorderStop nat
  | FrameInterval nat nat nat
  | BudgetTimeout nat nat Subject string
  | AudioCall blob Subject string
  | VideoCall "string list" Subject string
  | VideoAudioCall TranslationResult blob Subject string

text \<open>
  What the browser supplies when it runs a task: the permission request granted or
  rejected, the recorded data, the canvas of a frame tick (\<open>None\<close> when
  \<open>getContext('2d')\<close> returns null, otherwise the base64 part of the data URL), a
  timeout firing, a service call resolved or rejected.
\<close>

datatype payload =
    Granted
  | Rejected thrown
  | Data blob
  | Frame "string option"
  | Fired
  | Resolved TranslationResult

text \<open>
  The component state: the eight \<open>useState\<close> cells (lines 148 to 155), the four
  \<open>useRef\<close> cells that carry data (lines 158 to 163), and the browser: the
  \<open>geminiApiKey\<close> item of \<open>localStorage\<close>, the recorders and streams created so far
  (a stream is \<open>True\<close> while its tracks are live), the \<open>frames\<close> arrays allocated at
  line 245, the pending tasks, the next timer id and the clock read by \<open>Date.now()\<close>.
\<close>

record AppState =
  subject :: Subject
  status :: Status
  recordMode :: RecordMode
  latestResult :: "CryRecord option"
  history :: "CryRecord list"
  error :: "message option"
  apiKey :: string
  isApiKeyModalOpen :: bool
  mediaRecorderRef :: "nat option"
  audioChunksRef :: "blob list"
  streamRef :: "nat option"
  frameIntervalRef :: "nat option"
  localStorage :: "string option"
  recorders :: "Recorder list"
  streams :: "bool list"
  frameArrays :: "string list list"
  tasks :: "task list"
  nextTimer :: nat
  clock :: nat

datatype event =
    ClickRecord
  | SelectSubject Subject
  | SetRecordMode RecordMode
  | OpenSettings
  | CloseModal
  | SaveKey string
  | Advance nat
  | Run nat payload

subsection \<open>String helpers of the JavaScript runtime\<close>

text \<open>\<open>String.prototype.includes\<close> (primed: \<open>includes\<close> is a keyword).\<close>

fun includes' :: "string \<Rightarrow> string \<Rightarrow> bool" where
  "includes' [] sub = (sub = [])"
| "includes' (c # cs) sub = (take (length sub) (c # cs) = sub \<or> includes' cs sub)"

text \<open>\<open>String.prototype.trim\<close>, on the ASCII white space and line terminators.\<close>

definition is_space :: "char \<Rightarrow> bool" where
  "is_space c = (c \<in> set [CHR 0x09, CHR 0x0A, CHR 0x0B, CHR 0x0C, CHR 0x0D, CHR '' ''])"

definition trim :: "string \<Rightarrow> string" where
  "trim s = rev (dropWhile is_space (rev (dropWhile is_space s)))"

text \<open>\<open>Number.prototype.toString\<close> on a non-negative integer: its decimal digits.\<close>

definition digit :: "nat \<Rightarrow> char" where
  "digit d = ''0123456789'' ! d"

fun toString :: "nat \<Rightarrow> string" where
  "toString n = (if n < 10 then [digit n] else toString (n div 10) @ [digit (n mod 10)])"

declare toString.simps [simp del]

subsection \<open>The handlers\<close>

text \<open>The initial values of the state cells, and the mount effect (lines 165 to 172).\<close>

definition initial :: "string option \<Rightarrow> nat \<Rightarrow> AppState" where
  "initial stored now =
     \<lparr> subject = Baby, status = idle, recordMode = audio, latestResult = None,
       history = [], error = None, apiKey = [], isApiKeyModalOpen = False,
       mediaRecorderRef = None, audioChunksRef = [], streamRef = None,
       frameIntervalRef = None, localStorage = stored, recorders = [], streams = [],
       frameArrays = [], tasks = [], nextTimer = 1, clock = now \<rparr>"

definition mount :: "AppState \<Rightarrow> AppState" where
  "mount s =
     (case localStorage s of
        None \<Rightarrow> s\<lparr>isApiKeyModalOpen := True\<rparr>
      | Some storedApiKey \<Rightarrow>
          if storedApiKey \<noteq> [] then s\<lparr>apiKey := storedApiKey\<rparr>
          else s\<lparr>isApiKeyModalOpen := True\<rparr>)"

text \<open>\<open>clearInterval\<close>: the interval with that id is no longer pending.\<close>

fun is_interval :: "nat \<Rightarrow> task \<Rightarrow> bool" where
  "is_interval tid (FrameInterval tid' due a) = (tid' = tid)"
| "is_interval tid t = False"

definition clearInterval :: "nat \<Rightarrow> AppState \<Rightarrow> AppState" where
  "clearInterval tid s = s\<lparr>tasks := filter (\<lambda>t. \<not> is_interval tid t) (tasks s)\<rparr>"

text \<open>
  \<open>stopMediaTracks\<close> (lines 174 to 183). Timer ids are positive, so a stored id is
  truthy.
\<close>

definition stopMediaTracks :: "AppState \<Rightarrow> AppState" where
  "stopMediaTracks s =
     (let s1 = (case streamRef s of
                  None \<Rightarrow> s
                | Some i \<Rightarrow> s\<lparr>streams := (streams s)[i := False], streamRef := None\<rparr>)
      in case frameIntervalRef s1 of
           None \<Rightarrow> s1
         | Some tid \<Rightarrow> (clearInterval tid s1)\<lparr>frameIntervalRef := None\<rparr>)"

text \<open>\<open>handleSaveApiKey\<close> (lines 185 to 190).\<close>

definition handleSaveApiKey :: "string \<Rightarrow> AppState \<Rightarrow> AppState" where
  "handleSaveApiKey newApiKey s =
     s\<lparr>apiKey := newApiKey, localStorage := Some newApiKey,
       isApiKeyModalOpen := False, error := None\<rparr>"

text \<open>\<open>handleApiError\<close> (lines 192 to 204).\<close>

fun key_invalid :: "thrown \<Rightarrow> bool" where
  "key_invalid (Error msg) =
     (includes' msg ''API key not valid'' \<or> includes' msg ''API_KEY_INVALID'')"
| "key_invalid NonError = False"

definition handleApiError :: "thrown \<Rightarrow> AppState \<Rightarrow> AppState" where
  "handleApiError err s =
     (if key_invalid err
      then s\<lparr>localStorage := None, apiKey := [], isApiKeyModalOpen := True,
             error := Some KeyInvalidMsg, status := idle\<rparr>
      else s\<lparr>error := Some AnalysisFailedMsg, status := idle\<rparr>)"

text \<open>
  \<open>MediaRecorder.stop()\<close>: an inactive recorder ignores it; a recording one becomes
  inactive and its \<open>dataavailable\<close> and \<open>stop\<close> events are queued.
\<close>

definition recorder_stop :: "nat \<Rightarrow> AppState \<Rightarrow> AppState" where
  "recorder_stop i s =
     (if i < length (recorders s) \<and> active (recorders s ! i)
      then s\<lparr>recorders := (recorders s)[i := (recorders s ! i)\<lparr>active := False\<rparr>],
             tasks := tasks s @ [RecorderStop i]\<rparr>
      else s)"

text \<open>
  \<open>new MediaRecorder(stream)\<close>, its handlers attached, \<open>audioChunksRef.current = []\<close>
  and \<open>start()\<close> (lines 216 to 240 without the body of \<open>onstop\<close>, and lines 260 to 265).
\<close>

definition new_recorder :: "(Subject \<times> string) option \<Rightarrow> AppState \<Rightarrow> AppState" where
  "new_recorder h s =
     s\<lparr>mediaRecorderRef := Some (length (recorders s)),
       recorders := recorders s @ [\<lparr>active = True, onstop = h\<rparr>],
       audioChunksRef := []\<rparr>"

text \<open>The record built at lines 226 to 231 and 288 to 293.\<close>

definition newRecord :: "nat \<Rightarrow> Subject \<Rightarrow> TranslationResult \<Rightarrow> CryRecord" where
  "newRecord now sj r =
     \<lparr> cryType = cryType r, confidence = confidence r, suggestion = suggestion r,
       behavior = behavior r, id' = toString now, timestamp = now, subject' = sj \<rparr>"

text \<open>\<open>combinedResult\<close> (lines 281 to 286).\<close>

definition combinedResult :: "TranslationResult \<Rightarrow> TranslationResult \<Rightarrow> TranslationResult" where
  "combinedResult videoResult audioResult =
     \<lparr> cryType = cryType audioResult,
       confidence = (confidence audioResult + confidence videoResult) / 2,
       suggestion = suggestion videoResult @ '' '' @ suggestion audioResult,
       behavior = behavior videoResult \<rparr>"

text \<open>Lines 232 to 234 and 295 to 297.\<close>

definition store_record :: "CryRecord \<Rightarrow> AppState \<Rightarrow> AppState" where
  "store_record r s =
     s\<lparr>latestResult := Some r, history := r # history s, status := result\<rparr>"

text \<open>\<open>startRecording\<close> up to its \<open>await\<close> (lines 207 to 213).\<close>

definition startRecording :: "AppState \<Rightarrow> AppState" where
  "startRecording s =
     s\<lparr>error := None, status := recording, latestResult := None,
       tasks := tasks s @ [GetUserMedia (recordMode s) (subject s) (apiKey s)]\<rparr>"

text \<open>
  \<open>startRecording\<close> resumed with a stream (lines 213 to 304). In the video branch the
  assignment to \<open>srcObject\<close> changes nothing the model holds.
\<close>

definition startRecording_granted :: "RecordMode \<Rightarrow> Subject \<Rightarrow> string \<Rightarrow> AppState \<Rightarrow> AppState" where
  "startRecording_granted m sj key s =
     (let s1 = s\<lparr>streamRef := Some (length (streams s)), streams := streams s @ [True]\<rparr>
      in case m of
           audio \<Rightarrow> new_recorder (Some (sj, key)) s1
         | video \<Rightarrow>
             (let a = length (frameArrays s1);
                  tid = nextTimer s1;
                  s2 = s1\<lparr>frameArrays := frameArrays s1 @ [[]],
                          tasks := tasks s1 @ [FrameInterval tid (clock s1 + 500) a],
                          frameIntervalRef := Some tid,
                          nextTimer := tid + 1\<rparr>;
                  s3 = new_recorder None s2
              in s3\<lparr>tasks := tasks s3 @ [BudgetTimeout (clock s3 + 5000) a sj key],
                    nextTimer := nextTimer s3 + 1\<rparr>))"

text \<open>\<open>startRecording\<close> resumed with a rejection: the \<open>catch\<close> of lines 305 to 309.\<close>

definition startRecording_rejected :: "AppState \<Rightarrow> AppState" where
  "startRecording_rejected s = s\<lparr>error := Some CaptureFailedMsg, status := idle\<rparr>"

text \<open>\<open>stopRecording\<close> (lines 312 to 318).\<close>

definition stopRecording :: "AppState \<Rightarrow> AppState" where
  "stopRecording s =
     (let s1 = (case mediaRecorderRef s of
                  None \<Rightarrow> s
                | Some i \<Rightarrow> if recordMode s = audio then recorder_stop i s else s)
      in s1\<lparr>status := processing\<rparr>)"

text \<open>
  The video element and the canvas are rendered, and the refs to them set, exactly when
  \<open>recordMode === 'video' && status === 'recording'\<close> (line 352).
\<close>

definition video_mounted :: "AppState \<Rightarrow> bool" where
  "video_mounted s = (recordMode s = video \<and> status s = recording)"

text \<open>
  One run of the interval callback (lines 246 to 257); the interval stays scheduled, next
  due one period later.
\<close>

definition frame_tick :: "nat \<Rightarrow> nat \<Rightarrow> string option \<Rightarrow> AppState \<Rightarrow> AppState" where
  "frame_tick tid a ctx s =
     (let s1 = (case ctx of
                  None \<Rightarrow> s
                | Some d \<Rightarrow>
                    if video_mounted s \<and> a < length (frameArrays s)
                    then s\<lparr>frameArrays := (frameArrays s)[a := frameArrays s ! a @ [d]]\<rparr>
                    else s)
      in s1\<lparr>tasks := tasks s1 @ [FrameInterval tid (clock s1 + 500) a]\<rparr>)"

text \<open>The timeout callback up to its first \<open>await\<close> (lines 267 to 274).\<close>

definition budget_expired :: "nat \<Rightarrow> Subject \<Rightarrow> string \<Rightarrow> AppState \<Rightarrow> AppState" where
  "budget_expired a sj key s =
     (let s1 = (case mediaRecorderRef s of None \<Rightarrow> s | Some i \<Rightarrow> recorder_stop i s);
          s2 = (stopMediaTracks s1)\<lparr>status := processing\<rparr>
      in s2\<lparr>tasks := tasks s2 @ [VideoCall (frameArrays s2 ! a) sj key]\<rparr>)"

text \<open>
  The \<open>dataavailable\<close> and \<open>stop\<close> events of a recorder: the chunk is pushed (lines 218
  to 220 and 262 to 264), then \<open>onstop\<close> runs to its \<open>await\<close> (lines 221 to 225).
\<close>

definition recorder_events :: "nat \<Rightarrow> blob \<Rightarrow> AppState \<Rightarrow> AppState" where
  "recorder_events i d s =
     (let s1 = s\<lparr>audioChunksRef := audioChunksRef s @ [d]\<rparr>
      in case onstop (recorders s1 ! i) of
           None \<Rightarrow> s1
         | Some (sj, key) \<Rightarrow>
             s1\<lparr>status := processing,
                tasks := tasks s1 @ [AudioCall (concat (audioChunksRef s1)) sj key]\<rparr>)"

text \<open>
  A task run with what the browser supplies; \<open>None\<close> when the browser cannot run the
  task that way (a timer before it is due, an outcome of another kind of task).
\<close>

fun resume :: "task \<Rightarrow> payload \<Rightarrow> AppState \<Rightarrow> AppState option" where
  "resume (GetUserMedia m sj key) Granted s = Some (startRecording_granted m sj key s)"
| "resume (GetUserMedia m sj key) (Rejected err) s = Some (startRecording_rejected s)"
| "resume (RecorderStop i) (Data d) s = Some (recorder_events i d s)"
| "resume (FrameInterval tid due a) (Frame ctx) s =
     (if due \<le> clock s then Some (frame_tick tid a ctx s) else None)"
| "resume (BudgetTimeout due a sj key) Fired s =
     (if due \<le> clock s then Some (budget_expired a sj key s) else None)"
| "resume (AudioCall b sj key) (Resolved r) s =
     Some (stopMediaTracks (store_record (newRecord (clock s) sj r) s))"
| "resume (AudioCall b sj key) (Rejected err) s =
     Some (stopMediaTracks (handleApiError err s))"
| "resume (VideoCall fs sj key) (Resolved videoResult) s =
     Some (s\<lparr>tasks := tasks s @ [VideoAudioCall videoResult (concat (audioChunksRef s)) sj key]\<rparr>)"
| "resume (VideoCall fs sj key) (Rejected err) s = Some (handleApiError err s)"
| "resume (VideoAudioCall videoResult b sj key) (Resolved audioResult) s =
     Some (store_record (newRecord (clock s) sj (combinedResult videoResult audioResult)) s)"
| "resume (VideoAudioCall videoResult b sj key) (Rejected err) s = Some (handleApiError err s)"
| "resume t p s = None"

text \<open>The pending tasks without the one at position \<open>k\<close>.\<close>

definition dequeue :: "nat \<Rightarrow> 'a list \<Rightarrow> 'a list" where
  "dequeue k xs = take k xs @ drop (Suc k) xs"

text \<open>The browser runs the pending task at position \<open>k\<close>, which leaves the list.\<close>

definition run_task :: "nat \<Rightarrow> payload \<Rightarrow> AppState \<Rightarrow> AppState" where
  "run_task k p s =
     (if k < length (tasks s)
      then (case resume (tasks s ! k) p (s\<lparr>tasks := dequeue k (tasks s)\<rparr>) of
              None \<Rightarrow> s
            | Some s' \<Rightarrow> s')
      else s)"

text \<open>
  The record button (lines 359 to 361): disabled while processing or without a key,
  otherwise it stops a recording or starts one.
\<close>

definition clickRecord :: "AppState \<Rightarrow> AppState" where
  "clickRecord s =
     (if status s = processing \<or> apiKey s = [] then s
      else if status s = recording then stopRecording s
      else startRecording s)"

text \<open>
  The modal (lines 27 to 89) is rendered only while open; its cancel button and its
  backdrop close it only when a key is present; its save button passes on the trimmed
  input when that is not empty.
\<close>

definition closeModal :: "AppState \<Rightarrow> AppState" where
  "closeModal s =
     (if isApiKeyModalOpen s \<and> apiKey s \<noteq> [] then s\<lparr>isApiKeyModalOpen := False\<rparr> else s)"

definition handleSave :: "string \<Rightarrow> AppState \<Rightarrow> AppState" where
  "handleSave key s =
     (if isApiKeyModalOpen s \<and> trim key \<noteq> [] then handleSaveApiKey (trim key) s else s)"

fun step :: "event \<Rightarrow> AppState \<Rightarrow> AppState" where
  "step ClickRecord s = clickRecord s"
| "step (SelectSubject sj) s = s\<lparr>subject := sj, latestResult := None\<rparr>"
| "step (SetRecordMode m) s = s\<lparr>recordMode := m\<rparr>"
| "step OpenSettings s = s\<lparr>isApiKeyModalOpen := True\<rparr>"
| "step CloseModal s = closeModal s"
| "step (SaveKey key) s = handleSave key s"
| "step (Advance n) s = s\<lparr>clock := clock s + n\<rparr>"
| "step (Run k p) s = run_task k p s"

fun run :: "event list \<Rightarrow> AppState \<Rightarrow> AppState" where
  "run [] s = s"
| "run (e # es) s = run es (step e s)"

text \<open>The states of a session: the mounted component, and whatever events lead to.\<close>

inductive reachable :: "AppState \<Rightarrow> bool" where
  reach_mount: "reachable (mount (initial stored now))"
| reach_step: "reachable s \<Longrightarrow> reachable (step e s)"


text \<open>The service calls: \<open>translateAudio\<close> and \<open>analyzeVideoFrames\<close> in flight.\<close>

fun is_call :: "task \<Rightarrow> bool" where
  "is_call (AudioCall b sj key) = True"
| "is_call (VideoCall fs sj key) = True"
| "is_call (VideoAudioCall v b sj key) = True"
| "is_call t = False"


subsection \<open>Sample sessions\<close>

text \<open>
  A session that starts with a stored key, and the events of one audio cycle up to the
  service call: record, permission granted, stop, the recorder's events.
\<close>

definition session0 :: AppState where
  "session0 = mount (initial (Some ''demo-key'') 1700000000000)"

definition audio_to_call :: "event list" where
  "audio_to_call = [ClickRecord, Run 0 Granted, ClickRecord, Run 0 (Data ''chunk'')]"


definition r_audio :: TranslationResult where
  "r_audio = \<lparr>cryType = ''Hungry'', confidence = 0.7, suggestion = ''Offer a feed.'',
     behavior = None\<rparr>"

definition video_to_call :: "event list" where
  "video_to_call =
     [SetRecordMode video, ClickRecord, Run 0 Granted,
      Advance 500, Run 0 (Frame (Some ''frame1'')),
      Advance 4500, Run 0 Fired, Run 0 (Data ''chunk'')]"

text \<open>
  The scenario of the specification: subject Dog, audio mode, the service returns the
  label "Alert Bark" with confidence 0.82 and the advice "Check surroundings".
\<close>

definition r_bark :: TranslationResult where
  "r_bark = \<lparr>cryType = ''Alert Bark'', confidence = 0.82, suggestion = ''Check surroundings'',
     behavior = None\<rparr>"

definition dog_to_call :: "event list" where
  "dog_to_call = [SelectSubject Dog, ClickRecord, Run 0 Granted, ClickRecord, Run 0 (Data ''woof'')]"

definition dog_cycle :: "event list" where
  "dog_cycle = dog_to_call @ [Run 0 (Resolved r_bark)]"

text \<open>A complete audio cycle, and the same cycle one minute later.\<close>

definition audio_cycle :: "event list" where
  "audio_cycle = audio_to_call @ [Run 0 (Resolved r_audio)]"

definition later_cycle :: "event list" where
  "later_cycle = Advance 60000 # audio_cycle"


subsection \<open>The cycle a session is in\<close>

text \<open>
  A recorder without an \<open>onstop\<close> handler (video mode) queues events that only add a
  chunk to \<open>audioChunksRef\<close>. All other pending tasks are the core of the task list:
  they decide what the session does next. A session is always in one of seven phases,
  each with at most one cycle under way: at rest; waiting for the permission; capturing
  audio; between \<open>stop()\<close> and the \<open>stop\<close> event of audio mode; with the audio call
  of audio mode in flight; capturing video; with one of the two calls of video mode in
  flight.
\<close>

fun is_core :: "Recorder list \<Rightarrow> task \<Rightarrow> bool" where
  "is_core rs (RecorderStop i) = (onstop (rs ! i) \<noteq> None)"
| "is_core rs t = True"





















section \<open>Basic facts\<close>

lemmas handler_defs =
  startRecording_def startRecording_granted_def startRecording_rejected_def stopRecording_def
  frame_tick_def budget_expired_def recorder_events_def recorder_stop_def new_recorder_def
  stopMediaTracks_def clearInterval_def handleApiError_def handleSaveApiKey_def store_record_def
  clickRecord_def closeModal_def handleSave_def

lemmas eval_defs =
  handler_defs run_task_def dequeue_def mount_def initial_def session0_def Let_def
  video_mounted_def

text \<open>\<open>includes'\<close> is the substring test.\<close>

lemma includes'_iff: "includes' s sub \<longleftrightarrow> (\<exists>p q. s = p @ sub @ q)"
proof (induction s)
  case Nil
  then show ?case by auto
next
  case (Cons c cs)
  have here: "take (length sub) (c # cs) = sub \<longleftrightarrow> (\<exists>q. c # cs = sub @ q)"
    by (metis append_eq_conv_conj append_take_drop_id)
  have split: "(\<exists>p q. c # cs = p @ sub @ q) \<longleftrightarrow>
      (\<exists>q. c # cs = sub @ q) \<or> (\<exists>p q. cs = p @ sub @ q)"
  proof
    assume "\<exists>p q. c # cs = p @ sub @ q"
    then obtain p q where pq: "c # cs = p @ sub @ q" by blast
    show "(\<exists>q. c # cs = sub @ q) \<or> (\<exists>p q. cs = p @ sub @ q)"
    proof (cases p)
      case Nil
      with pq show ?thesis by auto
    next
      case (Cons a p')
      with pq have "cs = p' @ sub @ q" by simp
      then show ?thesis by blast
    qed
  next
    assume "(\<exists>q. c # cs = sub @ q) \<or> (\<exists>p q. cs = p @ sub @ q)"
    then show "\<exists>p q. c # cs = p @ sub @ q"
    proof
      assume "\<exists>q. c # cs = sub @ q"
      then show ?thesis by (metis append_Nil)
    next
      assume "\<exists>p q. cs = p @ sub @ q"
      then obtain p q where "cs = p @ sub @ q" by blast
      then have "c # cs = (c # p) @ sub @ q" by simp
      then show ?thesis by blast
    qed
  qed
  from here split Cons.IH show ?case by simp
qed

lemma key_invalid_iff:
  "key_invalid err \<longleftrightarrow>
     (\<exists>msg. err = Error msg \<and>
        ((\<exists>p q. msg = p @ ''API key not valid'' @ q) \<or>
         (\<exists>p q. msg = p @ ''API_KEY_INVALID'' @ q)))"
  by (cases err) (simp_all add: includes'_iff del: includes'.simps)

text \<open>Where the history changes: only where a record is stored.\<close>

lemma history_resume:
  "resume t p s = Some s' \<Longrightarrow>
     history s' =
       (case (t, p) of
          (AudioCall b sj key, Resolved r) \<Rightarrow> newRecord (clock s) sj r # history s
        | (VideoAudioCall v b sj key, Resolved r) \<Rightarrow>
            newRecord (clock s) sj (combinedResult v r) # history s
        | _ \<Rightarrow> history s)"
  by (cases t; cases p)
     (auto simp: handler_defs Let_def split: option.splits if_splits RecordMode.splits)

lemma history_step_cases:
  "history (step e s) = history s \<or>
   (\<exists>k r. e = Run k (Resolved r) \<and> k < length (tasks s) \<and>
      ((\<exists>b sj key. tasks s ! k = AudioCall b sj key \<and>
           history (step e s) = newRecord (clock s) sj r # history s) \<or>
       (\<exists>v b sj key. tasks s ! k = VideoAudioCall v b sj key \<and>
           history (step e s) = newRecord (clock s) sj (combinedResult v r) # history s)))"
proof (cases e)
  case (Run k p)
  show ?thesis
  proof (cases "k < length (tasks s)")
    case False
    with Run show ?thesis by (simp add: run_task_def)
  next
    case True
    show ?thesis
    proof (cases "resume (tasks s ! k) p (s\<lparr>tasks := dequeue k (tasks s)\<rparr>)")
      case None
      with Run True show ?thesis by (simp add: run_task_def)
    next
      case (Some s')
      from history_resume [OF Some] Run True Some show ?thesis
        by (cases "tasks s ! k"; cases p) (auto simp: run_task_def)
    qed
  qed
qed (auto simp: handler_defs Let_def split: option.splits if_splits)

text \<open>The sample session with its audio call in flight.\<close>

lemma audio_to_call_tasks:
  "tasks (run audio_to_call session0) = [AudioCall ''chunk'' Baby ''demo-key'']"
  by (simp add: audio_to_call_def eval_defs)

lemma audio_to_call_credential:
  "localStorage (run audio_to_call session0) = Some ''demo-key''"
  "apiKey (run audio_to_call session0) = ''demo-key''"
  "isApiKeyModalOpen (run audio_to_call session0) = False"
  by (simp_all add: audio_to_call_def eval_defs)




text \<open>What \<open>stopMediaTracks\<close> and \<open>MediaRecorder.stop()\<close> leave alone.\<close>

lemma stopMediaTracks_frame [simp]:
  "frameArrays (stopMediaTracks s) = frameArrays s"
  "audioChunksRef (stopMediaTracks s) = audioChunksRef s"
  "history (stopMediaTracks s) = history s"
  "status (stopMediaTracks s) = status s"
  by (simp_all add: stopMediaTracks_def clearInterval_def Let_def split: option.splits)


lemma recorder_stop_frame [simp]:
  "frameArrays (recorder_stop i s) = frameArrays s"
  "audioChunksRef (recorder_stop i s) = audioChunksRef s"
  "history (recorder_stop i s) = history s"
  "streamRef (recorder_stop i s) = streamRef s"
  "streams (recorder_stop i s) = streams s"
  "frameIntervalRef (recorder_stop i s) = frameIntervalRef s"
  by (simp_all add: recorder_stop_def)





lemma clock_resume: "resume t p s = Some s' \<Longrightarrow> clock s' = clock s"
  by (cases t; cases p)
     (auto simp: handler_defs Let_def split: option.splits if_splits RecordMode.splits)

lemma clock_step: "clock s \<le> clock (step e s)"
proof (cases e)
  case (Run k p)
  then show ?thesis
    by (auto simp: run_task_def split: option.splits dest: clock_resume)
qed (auto simp: handler_defs Let_def split: option.splits if_splits)

lemma reachable_run: "reachable s \<Longrightarrow> reachable (run es s)"
  by (induction es arbitrary: s) (auto intro: reach_step)

lemma reachable_session0: "reachable session0"
  unfolding session0_def by (rule reach_mount)

lemma history_run_suffix: "\<exists>new. history (run es s) = new @ history s"
proof (induction es arbitrary: s)
  case Nil
  then show ?case by simp
next
  case (Cons e es)
  from Cons.IH [of "step e s"] obtain new where new: "history (run es (step e s)) = new @ history (step e s)"
    by blast
  from history_step_cases [of e s] obtain pre where "history (step e s) = pre @ history s"
    by (metis append_Cons append_Nil)
  with new show ?case by simp
qed

lemma newest_first_inv:
  "reachable s \<Longrightarrow>
     sorted (rev (map timestamp (history s))) \<and> (\<forall>r \<in> set (history s). timestamp r \<le> clock s)"
proof (induction rule: reachable.induct)
  case (reach_mount stored now)
  then show ?case by (simp add: mount_def initial_def split: option.splits)
next
  case (reach_step s e)
  from history_step_cases [of e s]
  consider "history (step e s) = history s"
    | sj r where "history (step e s) = newRecord (clock s) sj r # history s"
    by blast
  then show ?case
  proof cases
    case 1
    with reach_step.IH clock_step [of s e] show ?thesis by fastforce
  next
    case 2
    with reach_step.IH clock_step [of s e] show ?thesis
      by (fastforce simp: sorted_append newRecord_def)
  qed
qed






lemma dog_cycle_history:
  "history (run dog_cycle session0) = [newRecord 1700000000000 Dog r_bark]"
  by (simp add: dog_cycle_def dog_to_call_def eval_defs)

lemma dog_later_history:
  "history (run (dog_cycle @ later_cycle) session0) =
     [newRecord 1700000060000 Dog r_audio, newRecord 1700000000000 Dog r_bark]"
  by (simp add: dog_cycle_def dog_to_call_def later_cycle_def audio_cycle_def audio_to_call_def
      eval_defs)


lemma onstop_stop [simp]: "onstop (rs[i := (rs ! i)\<lparr>active := False\<rparr>] ! x) = onstop (rs ! x)"
proof (cases "i < length rs")
  case True
  then show ?thesis by (cases "x = i") (simp_all add: nth_list_update)
next
  case False
  then show ?thesis by (simp add: list_update_beyond)
qed

lemma is_core_stop [simp]: "is_core (rs[i := (rs ! i)\<lparr>active := False\<rparr>]) = is_core rs"
proof
  fix t show "is_core (rs[i := (rs ! i)\<lparr>active := False\<rparr>]) t = is_core rs t"
    by (cases t) simp_all
qed







































lemma recorder_stop_other [simp]:
  "apiKey (recorder_stop i s) = apiKey s"
  "status (recorder_stop i s) = status s"
  "isApiKeyModalOpen (recorder_stop i s) = isApiKeyModalOpen s"
  "mediaRecorderRef (recorder_stop i s) = mediaRecorderRef s"
  by (simp_all add: recorder_stop_def)







lemma stopMediaTracks_release:
  assumes "streamRef s = Some j" and "frameIntervalRef s = None"
  shows "stopMediaTracks s = s\<lparr>streams := (streams s)[j := False], streamRef := None\<rparr>"
  using assms by (simp add: stopMediaTracks_def)
















lemma video_to_call_streams:
  "streams (run video_to_call session0) = [False]"
  by (simp add: video_to_call_def eval_defs)








section \<open>The claims\<close>

subsection \<open>C1: the merged result of video mode\<close>



subsection \<open>C2: one record for each completed cycle\<close>



subsection \<open>C3: an analysis failure and the stored credential\<close>

text \<open>
  C3. When a service call in flight is rejected with an \<open>Error\<close> whose message contains
  \<open>API key not valid\<close> or \<open>API_KEY_INVALID\<close>, the stored credential is removed from
  \<open>localStorage\<close>, the credential in memory is cleared, the modal is opened and the
  message asks for the key again. When it is rejected with anything else (an \<open>Error\<close>
  without the indicator, or a value that is not an \<open>Error\<close>), the stored credential,
  the credential in memory and the modal are as before and the generic message is shown.
  In both cases the status is \<open>idle\<close> afterwards. This holds for the audio call of audio
  mode and for both calls of video mode.
\<close>

theorem analysis_failure_credential:
  assumes "k < length (tasks s)" and "is_call (tasks s ! k)"
  shows "status (step (Run k (Rejected err)) s) = idle \<and>
    (if \<exists>msg. err = Error msg \<and>
          ((\<exists>p q. msg = p @ ''API key not valid'' @ q) \<or>
           (\<exists>p q. msg = p @ ''API_KEY_INVALID'' @ q))
     then localStorage (step (Run k (Rejected err)) s) = None \<and>
          apiKey (step (Run k (Rejected err)) s) = [] \<and>
          isApiKeyModalOpen (step (Run k (Rejected err)) s) \<and>
          error (step (Run k (Rejected err)) s) = Some KeyInvalidMsg
     else localStorage (step (Run k (Rejected err)) s) = localStorage s \<and>
          apiKey (step (Run k (Rejected err)) s) = apiKey s \<and>
          isApiKeyModalOpen (step (Run k (Rejected err)) s) = isApiKeyModalOpen s \<and>
          error (step (Run k (Rejected err)) s) = Some AnalysisFailedMsg)"
  unfolding key_invalid_iff [symmetric]
  using assms
  by (cases "tasks s ! k") (simp_all add: run_task_def handler_defs Let_def split: option.splits)

text \<open>
  The sample session, its audio call rejected once with the service's invalid-key
  message and once with a network error.
\<close>

theorem analysis_failure_credential_witness:
  "localStorage (step (Run 0 (Rejected (Error ''[400] API key not valid. Please pass a valid API key.'')))
      (run audio_to_call session0)) = None \<and>
   apiKey (step (Run 0 (Rejected (Error ''[400] API key not valid. Please pass a valid API key.'')))
      (run audio_to_call session0)) = [] \<and>
   isApiKeyModalOpen (step (Run 0 (Rejected (Error ''[400] API key not valid. Please pass a valid API key.'')))
      (run audio_to_call session0)) \<and>
   status (step (Run 0 (Rejected (Error ''[400] API key not valid. Please pass a valid API key.'')))
      (run audio_to_call session0)) = idle \<and>
   localStorage (step (Run 0 (Rejected (Error ''Failed to fetch''))) (run audio_to_call session0))
     = Some ''demo-key'' \<and>
   apiKey (step (Run 0 (Rejected (Error ''Failed to fetch''))) (run audio_to_call session0))
     = ''demo-key'' \<and>
   error (step (Run 0 (Rejected (Error ''Failed to fetch''))) (run audio_to_call session0))
     = Some AnalysisFailedMsg \<and>
   status (step (Run 0 (Rejected (Error ''Failed to fetch''))) (run audio_to_call session0)) = idle"
proof -
  let ?s = "run audio_to_call session0"
  have k: "0 < length (tasks ?s)" and c: "is_call (tasks ?s ! 0)"
    by (simp_all add: audio_to_call_tasks)
  have bad: "key_invalid (Error ''[400] API key not valid. Please pass a valid API key.'')"
    by code_simp
  have good: "\<not> key_invalid (Error ''Failed to fetch'')"
    by code_simp
  from analysis_failure_credential [OF k c, of "Error ''[400] API key not valid. Please pass a valid API key.''"]
    analysis_failure_credential [OF k c, of "Error ''Failed to fetch''"]
    bad good
  show ?thesis
    unfolding key_invalid_iff [symmetric] by (simp add: audio_to_call_credential)
qed

subsection \<open>C4: when the capture device is released\<close>




subsection \<open>C5: the capture device is unavailable\<close>




subsection \<open>C6: the two timers of video mode\<close>




subsection \<open>C7: the five seconds of video mode\<close>



subsection \<open>C8: no recording without a credential\<close>



subsection \<open>C9: the history only grows at its head\<close>

text \<open>
  C9. Every event leaves the history as it is or puts exactly one record in front of it.
  So after any sequence of events the earlier history is still there, unchanged and in
  the same order, as the tail of the later one. In every state of a session the records
  are ordered by creation time, newest first (the clock of the model never runs
  backwards).
\<close>

theorem history_append_only:
  "(history (step e s) = history s \<or> (\<exists>r. history (step e s) = r # history s)) \<and>
   (\<exists>new. history (run es s) = new @ history s) \<and>
   (reachable s \<longrightarrow>
      sorted (rev (map timestamp (history s))) \<and> (\<forall>r \<in> set (history s). timestamp r \<le> clock s))"
  using history_step_cases [of e s] history_run_suffix [of es s] newest_first_inv [of s]
  by blast

text \<open>The Dog cycle, then a second cycle a minute later.\<close>

theorem history_append_only_witness:
  "map timestamp (history (run (dog_cycle @ later_cycle) session0)) =
     [1700000060000, 1700000000000] \<and>
   sorted (rev (map timestamp (history (run (dog_cycle @ later_cycle) session0)))) \<and>
   (\<exists>new. history (run later_cycle (run dog_cycle session0)) =
      new @ [newRecord 1700000000000 Dog r_bark])"
proof -
  let ?s = "run (dog_cycle @ later_cycle) session0"
  have r: "reachable ?s"
    by (intro reachable_run reachable_session0)
  from history_append_only [of ClickRecord ?s "[]", THEN conjunct2, THEN conjunct2, THEN mp, OF r]
  have sorted: "sorted (rev (map timestamp (history ?s)))"
    by (rule conjunct1)
  from history_append_only [of ClickRecord "run dog_cycle session0" later_cycle,
      THEN conjunct2, THEN conjunct1]
  have grown: "\<exists>new. history (run later_cycle (run dog_cycle session0)) =
      new @ [newRecord 1700000000000 Dog r_bark]"
    by (simp only: dog_cycle_history)
  have "map timestamp (history ?s) = [1700000060000, 1700000000000]"
    by (simp add: dog_later_history newRecord_def)
  with sorted grown show ?thesis by blast
qed

subsection \<open>C10: the identifier of a record\<close>



end
